theory Spec2Isabelle
  imports Complex_Main
begin

section \<open>The friction model (js/friction/model/FrictionModel.js)\<close>

text \<open>
  JavaScript numbers are modelled as real numbers: every arithmetic expression of the
  source is kept, evaluated exactly. The Axon properties of the model are fields holding
  the property's value; \<open>Property.set\<close> stores a value that is not identical to the stored
  one and then runs the listeners linked in the constructor, and does nothing otherwise.
  An atom is the identity of one atom node; the only field of an atom that the model reads
  or writes through \<open>evaporate()\<close> and \<open>reset()\<close> and that is kept here is \<open>isEvaporated\<close>
  (the remaining fields drive the drawing). \<open>Math.random()\<close> is a parameter \<open>rnd\<close> of
  every operation that can reach \<open>evaporate\<close>, which draws at most once.
\<close>

subsection \<open>Constants\<close>

definition DISTANCE_Y :: real where [simp]: "DISTANCE_Y = 20"
definition DISTANCE_INITIAL :: real where [simp]: "DISTANCE_INITIAL = 25"
definition AMPLITUDE_MIN :: real where [simp]: "AMPLITUDE_MIN = 1"
definition AMPLITUDE_EVAPORATE :: real where [simp]: "AMPLITUDE_EVAPORATE = 7"
definition AMPLITUDE_MAX :: real where [simp]: "AMPLITUDE_MAX = 12"
definition COOLING_RATE :: real where [simp]: "COOLING_RATE = 0.2"
definition HEATING_MULTIPLIER :: real where [simp]: "HEATING_MULTIPLIER = 0.0075"
definition EVAPORATION_AMPLITUDE_REDUCTION :: real where
  [simp]: "EVAPORATION_AMPLITUDE_REDUCTION = 0.01"
definition MAX_X_DISPLACEMENT :: real where [simp]: "MAX_X_DISPLACEMENT = 600"
definition MIN_Y_POSITION :: real where [simp]: "MIN_Y_POSITION = - 70"

subsection \<open>State\<close>

type_synonym atom = nat

record vector2 =
  vec_x :: real
  vec_y :: real

text \<open>
  \<open>minYPos\<close> is assigned by \<open>init()\<close> only, so it is \<open>None\<close> (undefined) until then.
  \<open>positionIsInitialValue\<close> records whether the vector stored in \<open>positionProperty\<close> is
  the very object the property was created with: \<open>move\<close> always stores a fresh vector
  (\<open>plus\<close> allocates), \<open>reset\<close> stores the initial one again.
\<close>

record friction_model =
  scheduledEvaporationAmount :: real
  toEvaporateSample :: "atom list list"
  toEvaporate :: "atom list list"
  temperatureProperty :: real
  positionProperty :: vector2
  positionIsInitialValue :: bool
  distanceProperty :: real
  bottomOffsetProperty :: real
  atomRowsToEvaporateProperty :: nat
  contactProperty :: bool
  hintProperty :: bool
  newStepProperty :: bool
  minYPos :: "real option"
  isEvaporated :: "atom \<Rightarrow> bool"

subsection \<open>Listeners and property setters\<close>

text \<open>\<open>distanceProperty.link\<close>: the books are in contact when \<open>Math.floor( distance ) <= 0\<close>.\<close>

definition distance_listener :: "real \<Rightarrow> friction_model \<Rightarrow> friction_model" where
  "distance_listener distance m = m\<lparr>contactProperty := (\<lfloor>distance\<rfloor> \<le> 0)\<rparr>"

definition distanceProperty_set :: "real \<Rightarrow> friction_model \<Rightarrow> friction_model" where
  "distanceProperty_set d m =
     (if d = distanceProperty m then m
      else distance_listener d (m\<lparr>distanceProperty := d\<rparr>))"

text \<open>
  \<open>Array.prototype.splice( start, 1 )\<close>: a negative start counts from the end, a start
  past the end is the end; the result is the array left and the array of removed elements.
\<close>

definition splice1 :: "'a list \<Rightarrow> int \<Rightarrow> 'a list \<times> 'a list" where
  "splice1 xs start =
     (let n = int (length xs);
          k = nat (if start < 0 then max (n + start) 0 else min start n)
      in (take k xs @ drop (Suc k) xs, take 1 (drop k xs)))"

text \<open>First statement of \<open>evaporate\<close>: an empty last row is popped.\<close>

definition evaporate_row :: "friction_model \<Rightarrow> friction_model" where
  "evaporate_row m =
     (if toEvaporate m \<noteq> [] \<and> last (toEvaporate m) = [] then
        (let m1 = m\<lparr>toEvaporate := butlast (toEvaporate m)\<rparr>;
             m2 = distanceProperty_set (distanceProperty m1 + DISTANCE_Y) m1
         in m2\<lparr>atomRowsToEvaporateProperty := length (toEvaporate m2)\<rparr>)
      else m)"

text \<open>Second statement of \<open>evaporate\<close>: a random atom of the last row evaporates.\<close>

definition evaporate_atom :: "real \<Rightarrow> friction_model \<Rightarrow> friction_model" where
  "evaporate_atom rnd m =
     (if toEvaporate m \<noteq> [] then
        (let currentEvaporationRow = last (toEvaporate m);
             sp = splice1 currentEvaporationRow
                    \<lfloor>rnd * real (length currentEvaporationRow)\<rfloor>;
             m1 = m\<lparr>toEvaporate := butlast (toEvaporate m) @ [fst sp]\<rparr>
         in case snd sp of
              [] \<Rightarrow> m1
            | atom # _ \<Rightarrow>
                m1\<lparr>isEvaporated := (isEvaporated m1)(atom := True),
                   scheduledEvaporationAmount :=
                     scheduledEvaporationAmount m1 + EVAPORATION_AMPLITUDE_REDUCTION\<rparr>)
      else m)"

definition evaporate :: "real \<Rightarrow> friction_model \<Rightarrow> friction_model" where
  "evaporate rnd m = evaporate_atom rnd (evaporate_row m)"

text \<open>\<open>temperatureProperty.link\<close>: the evaporation check.\<close>

definition temperature_listener :: "real \<Rightarrow> real \<Rightarrow> friction_model \<Rightarrow> friction_model" where
  "temperature_listener rnd amplitude m =
     (if amplitude > AMPLITUDE_EVAPORATE then evaporate rnd m else m)"

definition temperatureProperty_set :: "real \<Rightarrow> real \<Rightarrow> friction_model \<Rightarrow> friction_model" where
  "temperatureProperty_set rnd t m =
     (if t = temperatureProperty m then m
      else temperature_listener rnd t (m\<lparr>temperatureProperty := t\<rparr>))"

text \<open>
  \<open>positionProperty.link\<close>: the distance follows the vertical motion, and horizontal
  motion heats the atoms when the books are in contact.
\<close>

definition position_listener ::
  "real \<Rightarrow> vector2 \<Rightarrow> vector2 \<Rightarrow> friction_model \<Rightarrow> friction_model" where
  "position_listener rnd newPosition oldPosition m =
     (let m1 = distanceProperty_set
                 (distanceProperty m - (vec_y newPosition - vec_y oldPosition)) m
      in if contactProperty m1 then
           (let dx = \<bar>vec_x newPosition - vec_x oldPosition\<bar>
            in temperatureProperty_set rnd
                 (min (temperatureProperty m1 + dx * HEATING_MULTIPLIER) AMPLITUDE_MAX) m1)
         else m1)"

text \<open>Storing a freshly allocated vector always notifies the listener.\<close>

definition positionProperty_set :: "real \<Rightarrow> vector2 \<Rightarrow> friction_model \<Rightarrow> friction_model" where
  "positionProperty_set rnd p m =
     position_listener rnd p (positionProperty m)
       (m\<lparr>positionProperty := p, positionIsInitialValue := False\<rparr>)"

text \<open>
  \<open>positionProperty.reset()\<close> stores the initial vector object; the listener runs unless
  that object is the one already stored.
\<close>

definition positionProperty_reset :: "real \<Rightarrow> friction_model \<Rightarrow> friction_model" where
  "positionProperty_reset rnd m =
     (if positionIsInitialValue m then m
      else position_listener rnd \<lparr>vec_x = 0, vec_y = 0\<rparr> (positionProperty m)
             (m\<lparr>positionProperty := \<lparr>vec_x = 0, vec_y = 0\<rparr>,
                positionIsInitialValue := True\<rparr>))"

subsection \<open>Construction and \<open>init\<close>\<close>

text \<open>
  The state the constructor leaves: the three \<open>link\<close> calls run their listener once, on
  distance 25, the zero position and temperature 1, and change nothing.
\<close>

definition FrictionModel :: friction_model where
  "FrictionModel =
     \<lparr>scheduledEvaporationAmount = 0,
      toEvaporateSample = [],
      toEvaporate = [],
      temperatureProperty = AMPLITUDE_MIN,
      positionProperty = \<lparr>vec_x = 0, vec_y = 0\<rparr>,
      positionIsInitialValue = True,
      distanceProperty = DISTANCE_INITIAL,
      bottomOffsetProperty = 0,
      atomRowsToEvaporateProperty = 0,
      contactProperty = False,
      hintProperty = True,
      newStepProperty = False,
      minYPos = None,
      isEvaporated = (\<lambda>_. False)\<rparr>"

text \<open>
  The first loop of \<open>init\<close>: \<open>toEvaporate[ i ] = toEvaporateSample[ i ].slice( 0 )\<close> for
  \<open>i\<close> from 0. The index never passes the length of \<open>toEvaporate\<close>, so the assignment
  overwrites an element or appends one.
\<close>

function init_copy :: "nat \<Rightarrow> atom list list \<Rightarrow> atom list list \<Rightarrow> atom list list" where
  "init_copy i sample rows =
     (if i < length sample then
        init_copy (Suc i) sample
          (if i < length rows then rows[i := sample ! i] else rows @ [sample ! i])
      else rows)"
  by pat_completeness auto
termination
  by (relation "measure (\<lambda>(i, sample, rows). length sample - i)") auto

declare init_copy.simps [simp del]

text \<open>The second loop of \<open>init\<close>: every atom of every row is reset.\<close>

definition init_reset_atoms :: "atom list list \<Rightarrow> (atom \<Rightarrow> bool) \<Rightarrow> (atom \<Rightarrow> bool)" where
  "init_reset_atoms rows flags = fold (\<lambda>row f. fold (\<lambda>a g. g(a := False)) row f) rows flags"

definition init :: "friction_model \<Rightarrow> friction_model" where
  "init m =
     (let rows = init_copy 0 (toEvaporateSample m) (toEvaporate m)
      in m\<lparr>toEvaporate := rows,
           isEvaporated := init_reset_atoms rows (isEvaporated m),
           atomRowsToEvaporateProperty := length rows,
           minYPos := Some MIN_Y_POSITION\<rparr>)"

subsection \<open>The public operations\<close>

definition step :: "real \<Rightarrow> real \<Rightarrow> friction_model \<Rightarrow> friction_model" where
  "step dt rnd m =
     (if dt > 0.5 then m
      else
        (let m1 = m\<lparr>newStepProperty := \<not> newStepProperty m\<rparr>;
             temperature = temperatureProperty m1 - scheduledEvaporationAmount m1;
             temperature' = max AMPLITUDE_MIN (temperature * (1 - dt * COOLING_RATE));
             m2 = temperatureProperty_set rnd temperature' m1
         in m2\<lparr>scheduledEvaporationAmount := 0\<rparr>))"

definition reset :: "real \<Rightarrow> friction_model \<Rightarrow> friction_model" where
  "reset rnd m =
     (let m1 = temperatureProperty_set rnd AMPLITUDE_MIN m;
          m2 = positionProperty_reset rnd m1;
          m3 = distanceProperty_set DISTANCE_INITIAL m2;
          m4 = m3\<lparr>bottomOffsetProperty := 0,
                  atomRowsToEvaporateProperty := 0,
                  contactProperty := False,
                  hintProperty := True,
                  newStepProperty := False\<rparr>
      in init m4)"

text \<open>
  \<open>move\<close>: the three groups of tests limit \<open>v.y\<close> and \<open>v.x\<close> in turn, then the new position
  is stored. A comparison with the undefined \<open>minYPos\<close> is false.
\<close>

definition move_bottom_offset :: "vector2 \<Rightarrow> friction_model \<Rightarrow> vector2 \<times> friction_model" where
  "move_bottom_offset v m =
     (if bottomOffsetProperty m > 0 \<and> vec_y v < 0 then
        (v\<lparr>vec_y := 0\<rparr>, m\<lparr>bottomOffsetProperty := bottomOffsetProperty m + vec_y v\<rparr>)
      else (v, m))"

definition move_limit_y :: "vector2 \<Rightarrow> friction_model \<Rightarrow> vector2 \<times> friction_model" where
  "move_limit_y v m =
     (if vec_y v > distanceProperty m then
        (v\<lparr>vec_y := distanceProperty m\<rparr>,
         m\<lparr>bottomOffsetProperty := bottomOffsetProperty m + vec_y v - distanceProperty m\<rparr>)
      else if (case minYPos m of None \<Rightarrow> False
               | Some lo \<Rightarrow> vec_y (positionProperty m) + vec_y v < lo) then
        (v\<lparr>vec_y := the (minYPos m) - vec_y (positionProperty m)\<rparr>, m)
      else (v, m))"

definition move_limit_x :: "vector2 \<Rightarrow> friction_model \<Rightarrow> vector2" where
  "move_limit_x v m =
     (if vec_x (positionProperty m) + vec_x v > MAX_X_DISPLACEMENT then
        v\<lparr>vec_x := MAX_X_DISPLACEMENT - vec_x (positionProperty m)\<rparr>
      else if vec_x (positionProperty m) + vec_x v < - MAX_X_DISPLACEMENT then
        v\<lparr>vec_x := - MAX_X_DISPLACEMENT - vec_x (positionProperty m)\<rparr>
      else v)"

definition vector2_plus :: "vector2 \<Rightarrow> vector2 \<Rightarrow> vector2" where
  "vector2_plus p v = \<lparr>vec_x = vec_x p + vec_x v, vec_y = vec_y p + vec_y v\<rparr>"

definition move :: "vector2 \<Rightarrow> real \<Rightarrow> friction_model \<Rightarrow> friction_model" where
  "move v rnd m =
     (let m0 = m\<lparr>hintProperty := False\<rparr>;
          (v1, m1) = move_bottom_offset v m0;
          (v2, m2) = move_limit_y v1 m1;
          v3 = move_limit_x v2 m2
      in positionProperty_set rnd (vector2_plus (positionProperty m2) v3) m2)"

text \<open>The \<open>end\<close> callback of the drag handler added by \<open>addDragInputListener\<close>.\<close>

definition drag_end :: "friction_model \<Rightarrow> friction_model" where
  "drag_end m = m\<lparr>bottomOffsetProperty := 0\<rparr>"

section \<open>Runs of the model\<close>

text \<open>
  The view fills \<open>toEvaporateSample\<close> with the rows of atoms that can evaporate and then
  calls \<open>init()\<close>; that is the state a simulation starts in.
\<close>

definition initial :: "atom list list \<Rightarrow> friction_model" where
  "initial sample = init (FrictionModel\<lparr>toEvaporateSample := sample\<rparr>)"

text \<open>
  The calls that change the model, each with the value \<open>Math.random()\<close> returns if the
  call reaches \<open>evaporate\<close>: \<open>step( dt )\<close>, \<open>move( v )\<close>, the private \<open>evaporate()\<close>
  called on its own, \<open>reset()\<close>, and the end of a drag.
\<close>

datatype operation =
    Step real real
  | Move vector2 real
  | Evaporate real
  | Reset real
  | DragEnd

fun apply_op :: "operation \<Rightarrow> friction_model \<Rightarrow> friction_model" where
  "apply_op (Step dt rnd) m = step dt rnd m"
| "apply_op (Move v rnd) m = move v rnd m"
| "apply_op (Evaporate rnd) m = evaporate rnd m"
| "apply_op (Reset rnd) m = reset rnd m"
| "apply_op DragEnd m = drag_end m"

fun run :: "operation list \<Rightarrow> friction_model \<Rightarrow> friction_model" where
  "run [] m = m"
| "run (op # ops) m = run ops (apply_op op m)"


fun is_reset :: "operation \<Rightarrow> bool" where
  "is_reset (Reset rnd) = True"
| "is_reset _ = False"



subsection \<open>Example states\<close>

text \<open>
  A small layout of two rows; the top book lowered onto the bottom one and rubbed to the
  right bound; the top book pushed five units further down than the gap allows; and the
  last row emptied by two evaporations.
\<close>

definition example_sample :: "atom list list" where
  "example_sample = [[0], [1, 2]]"

definition example_contact :: friction_model where
  "example_contact =
     run [Move \<lparr>vec_x = 0, vec_y = 25\<rparr> 0, Move \<lparr>vec_x = 600, vec_y = 0\<rparr> 0]
       (initial example_sample)"


definition example_empty_row :: friction_model where
  "example_empty_row = run [Evaporate 0, Evaporate 0] (initial example_sample)"

subsection \<open>The invariant of a run\<close>

text \<open>
  What every operation keeps true: the sample is never touched, rows are only popped, the
  published row count is the length of the queue, the distance and the height of the book
  add up to the initial gap plus one row height for each popped row, contact is the
  floor test on the distance, and the clamps of \<open>move\<close> and \<open>step\<close> hold.
\<close>

definition model_inv :: "atom list list \<Rightarrow> friction_model \<Rightarrow> bool" where
  "model_inv sample m \<longleftrightarrow>
     toEvaporateSample m = sample \<and>
     length (toEvaporate m) \<le> length sample \<and>
     atomRowsToEvaporateProperty m = length (toEvaporate m) \<and>
     distanceProperty m + vec_y (positionProperty m)
         + DISTANCE_Y * real (length (toEvaporate m)) =
       DISTANCE_INITIAL + DISTANCE_Y * real (length sample) \<and>
     contactProperty m = (\<lfloor>distanceProperty m\<rfloor> \<le> 0) \<and>
     0 \<le> distanceProperty m \<and>
     AMPLITUDE_MIN \<le> temperatureProperty m \<and>
     0 \<le> scheduledEvaporationAmount m \<and>
     - MAX_X_DISPLACEMENT \<le> vec_x (positionProperty m) \<and>
     vec_x (positionProperty m) \<le> MAX_X_DISPLACEMENT \<and>
     MIN_Y_POSITION \<le> vec_y (positionProperty m) \<and>
     minYPos m = Some MIN_Y_POSITION \<and>
     (positionIsInitialValue m \<longrightarrow> positionProperty m = \<lparr>vec_x = 0, vec_y = 0\<rparr>)"

section \<open>Lemmas about the operations\<close>

subsection \<open>Evaporation keeps the invariant\<close>

lemma evaporate_row_same [simp]:
  "temperatureProperty (evaporate_row m) = temperatureProperty m"
  "positionProperty (evaporate_row m) = positionProperty m"
  "positionIsInitialValue (evaporate_row m) = positionIsInitialValue m"
  "toEvaporateSample (evaporate_row m) = toEvaporateSample m"
  "scheduledEvaporationAmount (evaporate_row m) = scheduledEvaporationAmount m"
  "bottomOffsetProperty (evaporate_row m) = bottomOffsetProperty m"
  "minYPos (evaporate_row m) = minYPos m"
  "hintProperty (evaporate_row m) = hintProperty m"
  "newStepProperty (evaporate_row m) = newStepProperty m"
  "isEvaporated (evaporate_row m) = isEvaporated m"
  by (simp_all add: evaporate_row_def distanceProperty_set_def distance_listener_def Let_def)

lemma evaporate_atom_same [simp]:
  "temperatureProperty (evaporate_atom rnd m) = temperatureProperty m"
  "positionProperty (evaporate_atom rnd m) = positionProperty m"
  "positionIsInitialValue (evaporate_atom rnd m) = positionIsInitialValue m"
  "toEvaporateSample (evaporate_atom rnd m) = toEvaporateSample m"
  "distanceProperty (evaporate_atom rnd m) = distanceProperty m"
  "contactProperty (evaporate_atom rnd m) = contactProperty m"
  "atomRowsToEvaporateProperty (evaporate_atom rnd m) = atomRowsToEvaporateProperty m"
  "bottomOffsetProperty (evaporate_atom rnd m) = bottomOffsetProperty m"
  "minYPos (evaporate_atom rnd m) = minYPos m"
  "hintProperty (evaporate_atom rnd m) = hintProperty m"
  "newStepProperty (evaporate_atom rnd m) = newStepProperty m"
  "length (toEvaporate (evaporate_atom rnd m)) = length (toEvaporate m)"
  by (simp_all add: evaporate_atom_def Let_def split: list.splits)

lemma evaporate_atom_scheduled:
  "scheduledEvaporationAmount m \<le> scheduledEvaporationAmount (evaporate_atom rnd m)"
  by (simp add: evaporate_atom_def Let_def split: list.splits)

lemma inv_evaporate_row:
  assumes "model_inv sample m"
  shows "model_inv sample (evaporate_row m)"
proof (cases "toEvaporate m \<noteq> [] \<and> last (toEvaporate m) = []")
  case False
  then have "evaporate_row m = m" by (auto simp: evaporate_row_def)
  with assms show ?thesis by simp
next
  case True
  then have pos: "0 < length (toEvaporate m)" by simp
  have cnt: "real (length (toEvaporate m) - Suc 0) = real (length (toEvaporate m)) - 1"
    using True by (cases "toEvaporate m") simp_all
  have fl: "\<lfloor>distanceProperty m + 20\<rfloor> = \<lfloor>distanceProperty m\<rfloor> + 20"
    by linarith
  show ?thesis
    using assms True cnt fl
    by (simp add: model_inv_def evaporate_row_def distanceProperty_set_def
        distance_listener_def Let_def)
qed

lemma inv_evaporate_atom:
  assumes "model_inv sample m"
  shows "model_inv sample (evaporate_atom rnd m)"
  using assms evaporate_atom_scheduled [of m rnd]
  by (simp add: model_inv_def)

lemma inv_evaporate:
  "model_inv sample m \<Longrightarrow> model_inv sample (evaporate rnd m)"
  by (simp add: evaporate_def inv_evaporate_row inv_evaporate_atom)

lemma evaporate_same [simp]:
  "temperatureProperty (evaporate rnd m) = temperatureProperty m"
  "positionProperty (evaporate rnd m) = positionProperty m"
  "positionIsInitialValue (evaporate rnd m) = positionIsInitialValue m"
  "toEvaporateSample (evaporate rnd m) = toEvaporateSample m"
  "bottomOffsetProperty (evaporate rnd m) = bottomOffsetProperty m"
  "minYPos (evaporate rnd m) = minYPos m"
  "hintProperty (evaporate rnd m) = hintProperty m"
  "newStepProperty (evaporate rnd m) = newStepProperty m"
  by (simp_all add: evaporate_def)

lemma temperatureProperty_set_same [simp]:
  "temperatureProperty (temperatureProperty_set rnd t m) = t"
  "positionProperty (temperatureProperty_set rnd t m) = positionProperty m"
  "positionIsInitialValue (temperatureProperty_set rnd t m) = positionIsInitialValue m"
  "toEvaporateSample (temperatureProperty_set rnd t m) = toEvaporateSample m"
  "bottomOffsetProperty (temperatureProperty_set rnd t m) = bottomOffsetProperty m"
  "minYPos (temperatureProperty_set rnd t m) = minYPos m"
  "hintProperty (temperatureProperty_set rnd t m) = hintProperty m"
  "newStepProperty (temperatureProperty_set rnd t m) = newStepProperty m"
  by (simp_all add: temperatureProperty_set_def temperature_listener_def)

subsection \<open>The setters keep the invariant\<close>

lemma inv_temperatureProperty_set:
  assumes "model_inv sample m" and "AMPLITUDE_MIN \<le> t"
  shows "model_inv sample (temperatureProperty_set rnd t m)"
proof -
  have "model_inv sample (m\<lparr>temperatureProperty := t\<rparr>)"
    using assms by (simp add: model_inv_def)
  then show ?thesis
    using assms(1)
    by (simp add: temperatureProperty_set_def temperature_listener_def inv_evaporate)
qed

lemma inv_position_listener:
  assumes "model_inv sample m"
    and "- MAX_X_DISPLACEMENT \<le> vec_x p" and "vec_x p \<le> MAX_X_DISPLACEMENT"
    and "MIN_Y_POSITION \<le> vec_y p"
    and "vec_y p - vec_y (positionProperty m) \<le> distanceProperty m"
    and "b \<longrightarrow> p = \<lparr>vec_x = 0, vec_y = 0\<rparr>"
  shows "model_inv sample (position_listener rnd p (positionProperty m)
           (m\<lparr>positionProperty := p, positionIsInitialValue := b\<rparr>))"
proof -
  define m0 where "m0 = m\<lparr>positionProperty := p, positionIsInitialValue := b\<rparr>"
  define m1 where "m1 = distanceProperty_set
     (distanceProperty m0 - (vec_y p - vec_y (positionProperty m))) m0"
  have inv1: "model_inv sample m1"
    using assms
    by (auto simp: m1_def m0_def model_inv_def distanceProperty_set_def distance_listener_def)
  have T1: "AMPLITUDE_MIN \<le> temperatureProperty m1"
    using inv1 by (simp add: model_inv_def)
  have eq: "position_listener rnd p (positionProperty m) m0 =
     (if contactProperty m1 then
        temperatureProperty_set rnd
          (min (temperatureProperty m1 + \<bar>vec_x p - vec_x (positionProperty m)\<bar> * HEATING_MULTIPLIER)
             AMPLITUDE_MAX) m1
      else m1)"
    by (simp add: position_listener_def Let_def m1_def m0_def)
  have "0 \<le> \<bar>vec_x p - vec_x (positionProperty m)\<bar> * HEATING_MULTIPLIER"
    by simp
  with T1 have "AMPLITUDE_MIN \<le> min (temperatureProperty m1 +
          \<bar>vec_x p - vec_x (positionProperty m)\<bar> * HEATING_MULTIPLIER) AMPLITUDE_MAX"
    by (simp del: HEATING_MULTIPLIER_def)
  then show ?thesis
    unfolding m0_def [symmetric] eq using inv1
    by (simp add: inv_temperatureProperty_set
        del: AMPLITUDE_MIN_def AMPLITUDE_MAX_def HEATING_MULTIPLIER_def)
qed

lemma inv_positionProperty_set:
  assumes "model_inv sample m"
    and "- MAX_X_DISPLACEMENT \<le> vec_x p" and "vec_x p \<le> MAX_X_DISPLACEMENT"
    and "MIN_Y_POSITION \<le> vec_y p"
    and "vec_y p - vec_y (positionProperty m) \<le> distanceProperty m"
  shows "model_inv sample (positionProperty_set rnd p m)"
  unfolding positionProperty_set_def
  using assms by (intro inv_position_listener) simp_all

subsection \<open>\<open>init\<close> copies the sample\<close>

text \<open>
  The copying loop started at index \<open>i\<close> keeps the rows before \<open>i\<close>, takes the sample from \<open>i\<close> on,
  and keeps the rows past the length of the sample.
\<close>

lemma init_copy_closed:
  "i \<le> length rows \<Longrightarrow> i \<le> length sample \<Longrightarrow>
   init_copy i sample rows = take i rows @ drop i sample @ drop (length sample) rows"
proof (induction i sample rows rule: init_copy.induct)
  case (1 i sample rows)
  show ?case
  proof (cases "i < length sample")
    case False
    with 1 show ?thesis by (simp add: init_copy.simps)
  next
    case True
    define rows' where
      "rows' = (if i < length rows then rows[i := sample ! i] else rows @ [sample ! i])"
    have len: "Suc i \<le> length rows'"
      using "1.prems" by (simp add: rows'_def)
    have tk: "take (Suc i) rows' = take i rows @ [sample ! i]"
      using "1.prems" by (auto simp: rows'_def take_Suc_conv_app_nth)
    have dr: "drop (length sample) rows' = drop (length sample) rows"
      using "1.prems" True by (auto simp: rows'_def)
    have "init_copy i sample rows = init_copy (Suc i) sample rows'"
      using True by (subst init_copy.simps) (simp add: rows'_def)
    also have "\<dots> = take (Suc i) rows' @ drop (Suc i) sample @ drop (length sample) rows'"
      using "1.IH" [OF True] len True by (simp add: rows'_def)
    also have "\<dots> = take i rows @ drop i sample @ drop (length sample) rows"
      using True by (simp add: tk dr Cons_nth_drop_Suc)
    finally show ?thesis .
  qed
qed

lemma init_copy_0: "init_copy 0 sample rows = sample @ drop (length sample) rows"
  by (simp add: init_copy_closed)

lemma inv_initial: "model_inv sample (initial sample)"
  by (simp add: initial_def init_def FrictionModel_def init_copy_0 model_inv_def)

subsection \<open>\<open>step\<close> and \<open>move\<close> keep the invariant\<close>

lemma inv_irrelevant_fields [simp]:
  "model_inv sample (m\<lparr>bottomOffsetProperty := b\<rparr>) = model_inv sample m"
  "model_inv sample (m\<lparr>hintProperty := h\<rparr>) = model_inv sample m"
  "model_inv sample (m\<lparr>newStepProperty := n\<rparr>) = model_inv sample m"
  by (simp_all add: model_inv_def)

lemma inv_clear_scheduled:
  "model_inv sample m \<Longrightarrow> model_inv sample (m\<lparr>scheduledEvaporationAmount := 0\<rparr>)"
  by (simp add: model_inv_def)

lemma inv_drag_end: "model_inv sample m \<Longrightarrow> model_inv sample (drag_end m)"
  by (simp add: drag_end_def)

lemma inv_step: 
  assumes "model_inv sample m"
  shows "model_inv sample (step dt rnd m)"
proof (cases "dt > 0.5")
  case True
  with assms show ?thesis by (simp add: step_def)
next
  case False
  have "model_inv sample (temperatureProperty_set rnd
     (max AMPLITUDE_MIN ((temperatureProperty m - scheduledEvaporationAmount m)
         * (1 - dt * COOLING_RATE))) (m\<lparr>newStepProperty := \<not> newStepProperty m\<rparr>))"
    using assms by (intro inv_temperatureProperty_set) simp_all
  then show ?thesis
    using False by (simp add: step_def Let_def inv_clear_scheduled)
qed

lemma move_bottom_offset_props:
  assumes "move_bottom_offset v m = (v1, m1)"
  shows "\<exists>b. m1 = m\<lparr>bottomOffsetProperty := b\<rparr>" and "vec_x v1 = vec_x v"
  using assms by (auto simp: move_bottom_offset_def split: if_splits intro: exI [of _ "bottomOffsetProperty m"])

lemma move_limit_y_props:
  assumes "move_limit_y v m = (v2, m2)"
  shows "\<exists>b. m2 = m\<lparr>bottomOffsetProperty := b\<rparr>" and "vec_x v2 = vec_x v"
    and "vec_y v2 \<le> distanceProperty m \<or>
         (minYPos m \<noteq> None \<and> vec_y v2 = the (minYPos m) - vec_y (positionProperty m))"
    and "minYPos m = Some lo \<Longrightarrow> lo \<le> vec_y (positionProperty m) + vec_y v2 \<or> vec_y v2 = distanceProperty m"
  using assms by (auto simp: move_limit_y_def split: if_splits option.splits intro: exI [of _ "bottomOffsetProperty m"])

lemma move_limit_x_props:
  "- MAX_X_DISPLACEMENT \<le> vec_x (positionProperty m) + vec_x (move_limit_x v m)"
  "vec_x (positionProperty m) + vec_x (move_limit_x v m) \<le> MAX_X_DISPLACEMENT"
  "vec_y (move_limit_x v m) = vec_y v"
  by (simp_all add: move_limit_x_def)

lemma inv_move:
  assumes "model_inv sample m"
  shows "model_inv sample (move v rnd m)"
proof -
  obtain v1 m1 where r1: "move_bottom_offset v (m\<lparr>hintProperty := False\<rparr>) = (v1, m1)"
    by (cases "move_bottom_offset v (m\<lparr>hintProperty := False\<rparr>)")
  obtain v2 m2 where r2: "move_limit_y v1 m1 = (v2, m2)"
    by (cases "move_limit_y v1 m1")
  from move_bottom_offset_props(1) [OF r1] assms have inv1: "model_inv sample m1"
    by auto
  from move_limit_y_props(1) [OF r2] inv1 have inv2: "model_inv sample m2"
    by auto
  from move_limit_y_props(1) [OF r2] have same:
    "positionProperty m2 = positionProperty m1" "distanceProperty m2 = distanceProperty m1"
    "minYPos m2 = minYPos m1"
    by auto
  have lo: "minYPos m1 = Some MIN_Y_POSITION" "MIN_Y_POSITION \<le> vec_y (positionProperty m1)"
    "0 \<le> distanceProperty m1"
    using inv1 by (simp_all add: model_inv_def)
  have up: "vec_y v2 \<le> distanceProperty m1"
    using move_limit_y_props(3) [OF r2] lo by auto
  have down: "MIN_Y_POSITION \<le> vec_y (positionProperty m1) + vec_y v2"
    using move_limit_y_props(4) [OF r2 lo(1)] lo by auto
  have eq: "move v rnd m =
    positionProperty_set rnd (vector2_plus (positionProperty m2) (move_limit_x v2 m2)) m2"
    by (simp add: move_def Let_def r1 r2)
  show ?thesis
    unfolding eq
    using inv2 move_limit_x_props [where m = m2 and v = v2] up down same
    by (intro inv_positionProperty_set) (simp_all add: vector2_plus_def)
qed

subsection \<open>\<open>reset\<close>\<close>

text \<open>
  In a state of a run the gap plus the height of the book is at least the initial distance,
  so the listener run by the position reset finds the books apart.
\<close>

lemma position_listener_same [simp]:
  "positionProperty (position_listener rnd p old m) = positionProperty m"
  "positionIsInitialValue (position_listener rnd p old m) = positionIsInitialValue m"
  "toEvaporateSample (position_listener rnd p old m) = toEvaporateSample m"
  "bottomOffsetProperty (position_listener rnd p old m) = bottomOffsetProperty m"
  "minYPos (position_listener rnd p old m) = minYPos m"
  "hintProperty (position_listener rnd p old m) = hintProperty m"
  "newStepProperty (position_listener rnd p old m) = newStepProperty m"
  by (simp_all add: position_listener_def Let_def distanceProperty_set_def
      distance_listener_def)

lemma inv_gap:
  assumes "model_inv sample m"
  shows "DISTANCE_INITIAL \<le> distanceProperty m + vec_y (positionProperty m)"
proof -
  have "real (length (toEvaporate m)) \<le> real (length sample)"
    using assms by (simp add: model_inv_def)
  moreover have "distanceProperty m + vec_y (positionProperty m)
         + DISTANCE_Y * real (length (toEvaporate m)) =
       DISTANCE_INITIAL + DISTANCE_Y * real (length sample)"
    using assms by (simp add: model_inv_def)
  ultimately show ?thesis by simp
qed

lemma positionProperty_reset_props:
  assumes "model_inv sample m"
  shows "temperatureProperty (positionProperty_reset rnd m) = temperatureProperty m"
    and "positionProperty (positionProperty_reset rnd m) = \<lparr>vec_x = 0, vec_y = 0\<rparr>"
    and "model_inv sample (positionProperty_reset rnd m)"
proof -
  note gap = inv_gap [OF assms]
  have c: "contactProperty m = (\<lfloor>distanceProperty m\<rfloor> \<le> 0)"
    using assms by (simp add: model_inv_def)
  show "temperatureProperty (positionProperty_reset rnd m) = temperatureProperty m"
    using gap c
    by (auto simp: positionProperty_reset_def position_listener_def Let_def
        distanceProperty_set_def distance_listener_def)
  show "positionProperty (positionProperty_reset rnd m) = \<lparr>vec_x = 0, vec_y = 0\<rparr>"
    using assms by (simp add: positionProperty_reset_def model_inv_def)
  show "model_inv sample (positionProperty_reset rnd m)"
  proof (cases "positionIsInitialValue m")
    case True
    with assms show ?thesis by (simp add: positionProperty_reset_def)
  next
    case False
    then show ?thesis
      unfolding positionProperty_reset_def
      using assms gap by (simp, intro inv_position_listener) simp_all
  qed
qed

lemma reset_props:
  assumes "model_inv sample m"
  shows "temperatureProperty (reset rnd m) = AMPLITUDE_MIN"
    and "positionProperty (reset rnd m) = \<lparr>vec_x = 0, vec_y = 0\<rparr>"
    and "distanceProperty (reset rnd m) = DISTANCE_INITIAL"
    and "toEvaporate (reset rnd m) = sample"
    and "model_inv sample (reset rnd m)"
proof -
  define m1 where "m1 = temperatureProperty_set rnd AMPLITUDE_MIN m"
  define m2 where "m2 = positionProperty_reset rnd m1"
  have inv1: "model_inv sample m1"
    unfolding m1_def using assms by (intro inv_temperatureProperty_set) simp_all
  have T1: "temperatureProperty m1 = AMPLITUDE_MIN"
    by (simp add: m1_def del: AMPLITUDE_MIN_def)
  note p = positionProperty_reset_props [OF inv1, of rnd, folded m2_def]
  have eq: "reset rnd m = init (distanceProperty_set DISTANCE_INITIAL m2
     \<lparr>bottomOffsetProperty := 0, atomRowsToEvaporateProperty := 0,
      contactProperty := False, hintProperty := True, newStepProperty := False\<rparr>)"
    by (simp add: reset_def Let_def m1_def m2_def)
  have rows: "init_copy 0 (toEvaporateSample m2) (toEvaporate m2) = sample"
    using p(3) by (simp add: init_copy_0 model_inv_def)
  show "temperatureProperty (reset rnd m) = AMPLITUDE_MIN"
    unfolding eq using p(1) T1
    by (simp add: init_def Let_def distanceProperty_set_def distance_listener_def)
  show "positionProperty (reset rnd m) = \<lparr>vec_x = 0, vec_y = 0\<rparr>"
    unfolding eq using p(2)
    by (simp add: init_def Let_def distanceProperty_set_def distance_listener_def)
  show "distanceProperty (reset rnd m) = DISTANCE_INITIAL"
    unfolding eq
    by (simp add: init_def Let_def distanceProperty_set_def distance_listener_def)
  show "toEvaporate (reset rnd m) = sample"
    unfolding eq using rows
    by (simp add: init_def Let_def distanceProperty_set_def distance_listener_def)
  show "model_inv sample (reset rnd m)"
    unfolding eq using rows p(2,3)
    by (simp add: init_def Let_def distanceProperty_set_def distance_listener_def
        model_inv_def)
qed

lemma inv_apply_op: "model_inv sample m \<Longrightarrow> model_inv sample (apply_op op m)"
  by (cases op) (simp_all add: inv_step inv_move inv_evaporate reset_props(5) inv_drag_end)

lemma inv_run: "model_inv sample m \<Longrightarrow> model_inv sample (run ops m)"
  by (induction ops arbitrary: m) (simp_all add: inv_apply_op)

lemma inv_reachable: "model_inv sample (run ops (initial sample))"
  by (simp add: inv_run inv_initial)

subsection \<open>Heating and cooling\<close>


lemma move_as_position_set:
  "\<exists>b. move v rnd m =
     positionProperty_set rnd (positionProperty (move v rnd m))
       (m\<lparr>hintProperty := False, bottomOffsetProperty := b\<rparr>)"
proof -
  obtain v1 m1 where r1: "move_bottom_offset v (m\<lparr>hintProperty := False\<rparr>) = (v1, m1)"
    by (cases "move_bottom_offset v (m\<lparr>hintProperty := False\<rparr>)")
  obtain v2 m2 where r2: "move_limit_y v1 m1 = (v2, m2)"
    by (cases "move_limit_y v1 m1")
  from move_bottom_offset_props(1) [OF r1] move_limit_y_props(1) [OF r2]
  obtain b where m2: "m2 = m\<lparr>hintProperty := False, bottomOffsetProperty := b\<rparr>"
    by auto
  have eq: "move v rnd m =
    positionProperty_set rnd (vector2_plus (positionProperty m2) (move_limit_x v2 m2)) m2"
    by (simp add: move_def Let_def r1 r2)
  have "positionProperty (move v rnd m) =
    vector2_plus (positionProperty m2) (move_limit_x v2 m2)"
    unfolding eq by (simp add: positionProperty_set_def)
  with eq m2 show ?thesis by auto
qed







subsection \<open>The bottom offset\<close>


subsection \<open>The evaporating atom\<close>

lemma random_index_less:
  assumes "0 \<le> rnd" and "rnd < 1" and "0 < n"
  shows "0 \<le> \<lfloor>rnd * real n\<rfloor>" and "\<lfloor>rnd * real n\<rfloor> < int n"
proof -
  show "0 \<le> \<lfloor>rnd * real n\<rfloor>" using assms by simp
  have "rnd * real n < 1 * real n"
    using assms by (intro mult_strict_right_mono) simp_all
  then show "\<lfloor>rnd * real n\<rfloor> < int n" by (simp add: floor_less_iff)
qed

lemma random_index_interval:
  assumes "0 \<le> r" and "0 < n"
  shows "(nat \<lfloor>r * real n\<rfloor> = j) = (real j / real n \<le> r \<and> r < (real j + 1) / real n)"
proof -
  have "0 \<le> \<lfloor>r * real n\<rfloor>" using assms by simp
  then have "(nat \<lfloor>r * real n\<rfloor> = j) = (\<lfloor>r * real n\<rfloor> = int j)" by auto
  also have "\<dots> = (real j \<le> r * real n \<and> r * real n < real j + 1)"
    by (simp add: floor_eq_iff)
  also have "\<dots> = (real j / real n \<le> r \<and> r < (real j + 1) / real n)"
    using assms(2) by (simp add: pos_divide_le_eq pos_less_divide_eq)
  finally show ?thesis .
qed

lemma splice1_in_range:
  assumes "0 \<le> i" and "i < int (length xs)"
  shows "splice1 xs i = (take (nat i) xs @ drop (Suc (nat i)) xs, [xs ! nat i])"
proof -
  have "nat i < length xs" using assms by simp
  then have "take 1 (drop (nat i) xs) = [xs ! nat i]"
    using Cons_nth_drop_Suc [of "nat i" xs, symmetric] by simp
  then show ?thesis using assms by (simp add: splice1_def Let_def min_def)
qed

lemma evaporate_atom_nonempty:
  assumes "toEvaporate m \<noteq> []" and "last (toEvaporate m) \<noteq> []"
    and "0 \<le> rnd" and "rnd < 1"
  shows "evaporate_atom rnd m =
     m\<lparr>toEvaporate := butlast (toEvaporate m) @
          [take (nat \<lfloor>rnd * real (length (last (toEvaporate m)))\<rfloor>) (last (toEvaporate m)) @
           drop (Suc (nat \<lfloor>rnd * real (length (last (toEvaporate m)))\<rfloor>)) (last (toEvaporate m))],
       isEvaporated := (isEvaporated m)
          (last (toEvaporate m) ! nat \<lfloor>rnd * real (length (last (toEvaporate m)))\<rfloor> := True),
       scheduledEvaporationAmount :=
          scheduledEvaporationAmount m + EVAPORATION_AMPLITUDE_REDUCTION\<rparr>"
proof -
  have n: "0 < length (last (toEvaporate m))" using assms(2) by simp
  note sp = splice1_in_range [OF random_index_less [OF assms(3,4) n]]
  show ?thesis using assms(1) by (simp add: evaporate_atom_def Let_def sp)
qed

lemma evaporate_row_keep:
  "toEvaporate m = [] \<or> last (toEvaporate m) \<noteq> [] \<Longrightarrow> evaporate_row m = m"
  by (auto simp: evaporate_row_def)

subsection \<open>Rows are only popped\<close>

lemma distanceProperty_set_rows [simp]:
  "toEvaporate (distanceProperty_set d m) = toEvaporate m"
  by (simp add: distanceProperty_set_def distance_listener_def)

lemma evaporate_rows_le:
  "length (toEvaporate (evaporate rnd m)) \<le> length (toEvaporate m)"
  by (simp add: evaporate_def evaporate_row_def Let_def)

lemma temperatureProperty_set_rows_le:
  "length (toEvaporate (temperatureProperty_set rnd t m)) \<le> length (toEvaporate m)"
  using evaporate_rows_le [of rnd "m\<lparr>temperatureProperty := t\<rparr>"]
  by (simp add: temperatureProperty_set_def temperature_listener_def)

lemma position_listener_rows_le:
  "length (toEvaporate (position_listener rnd p old m)) \<le> length (toEvaporate m)"
  using temperatureProperty_set_rows_le [of rnd _ "distanceProperty_set _ m"]
  by (simp add: position_listener_def Let_def)

lemma step_rows_le: "length (toEvaporate (step dt rnd m)) \<le> length (toEvaporate m)"
  using temperatureProperty_set_rows_le [of rnd _ "m\<lparr>newStepProperty := \<not> newStepProperty m\<rparr>"]
  by (simp add: step_def Let_def)

lemma move_rows_le: "length (toEvaporate (move v rnd m)) \<le> length (toEvaporate m)"
proof -
  obtain b where eq: "move v rnd m =
     positionProperty_set rnd (positionProperty (move v rnd m))
       (m\<lparr>hintProperty := False, bottomOffsetProperty := b\<rparr>)"
    using move_as_position_set by blast
  show ?thesis
    using position_listener_rows_le
      [of rnd "positionProperty (move v rnd m)" "positionProperty m"
        "m\<lparr>hintProperty := False, bottomOffsetProperty := b,
           positionProperty := positionProperty (move v rnd m),
           positionIsInitialValue := False\<rparr>"]
    by (subst eq) (simp add: positionProperty_set_def)
qed

lemma apply_op_rows_le:
  "\<not> is_reset op \<Longrightarrow> length (toEvaporate (apply_op op m)) \<le> length (toEvaporate m)"
  by (cases op) (simp_all add: step_rows_le move_rows_le evaporate_rows_le drag_end_def)

lemma run_rows_le:
  "list_all (\<lambda>op. \<not> is_reset op) ops \<Longrightarrow>
   length (toEvaporate (run ops m)) \<le> length (toEvaporate m)"
proof (induction ops arbitrary: m)
  case Nil
  then show ?case by simp
next
  case (Cons op ops)
  have "length (toEvaporate (run ops (apply_op op m))) \<le> length (toEvaporate (apply_op op m))"
    using Cons by simp
  also have "\<dots> \<le> length (toEvaporate m)"
    using Cons.prems by (simp add: apply_op_rows_le)
  finally show ?case by simp
qed

subsection \<open>The example states, evaluated\<close>

lemmas model_eval =
  initial_def init_def FrictionModel_def init_copy.simps init_reset_atoms_def
  step_def reset_def move_def move_bottom_offset_def move_limit_y_def move_limit_x_def
  vector2_plus_def drag_end_def positionProperty_set_def positionProperty_reset_def
  position_listener_def distanceProperty_set_def distance_listener_def
  temperatureProperty_set_def temperature_listener_def evaporate_def evaporate_row_def
  evaporate_atom_def splice1_def Let_def

lemma example_contact_fields:
  "temperatureProperty example_contact = 5.5"
  "scheduledEvaporationAmount example_contact = 0"
  "positionProperty example_contact = \<lparr>vec_x = 600, vec_y = 25\<rparr>"
  "distanceProperty example_contact = 0"
  "contactProperty example_contact"
  "bottomOffsetProperty example_contact = 0"
  "minYPos example_contact = Some (- 70)"
  "toEvaporate example_contact = [[0], [1, 2]]"
  "atomRowsToEvaporateProperty example_contact = 2"
  "newStepProperty example_contact = False"
  by (simp_all add: example_contact_def example_sample_def model_eval)


lemma example_empty_row_fields:
  "toEvaporate example_empty_row = [[0], []]"
  "distanceProperty example_empty_row = 25"
  "atomRowsToEvaporateProperty example_empty_row = 2"
  "scheduledEvaporationAmount example_empty_row = 0.02"
  by (simp_all add: example_empty_row_def example_sample_def model_eval)

section \<open>Properties\<close>

text \<open>
  C1: for every call \<open>step(dt)\<close> with \<open>0 \<le> dt \<le> 0.5\<close>, the new temperature is the old
  temperature minus the accumulated evaporation cooling, multiplied by
  \<open>1 - dt * COOLING_RATE\<close> and clamped below at \<open>AMPLITUDE_MIN\<close>, and the accumulator is
  cleared to 0.
\<close>

theorem step_cooling:
  "0 \<le> dt \<Longrightarrow> dt \<le> 0.5 \<Longrightarrow>
   temperatureProperty (step dt rnd m) =
     max AMPLITUDE_MIN
       ((temperatureProperty m - scheduledEvaporationAmount m) * (1 - dt * COOLING_RATE)) \<and>
   scheduledEvaporationAmount (step dt rnd m) = 0"
  by (simp add: step_def Let_def)

theorem step_cooling_witness:
  "(0::real) \<le> 0.5 \<and> (0.5::real) \<le> 0.5 \<and>
   temperatureProperty (step 0.5 0 example_contact) = 4.95 \<and>
   scheduledEvaporationAmount (step 0.5 0 example_contact) = 0"
  using step_cooling [where dt = "0.5" and rnd = 0 and m = example_contact]
  by (simp add: example_contact_fields)

text \<open>
  C2: for every \<open>dt > 0.5\<close>, \<open>step(dt)\<close> returns without updating anything: the whole
  state, and so temperature, position and distance, is what it was before the call.
\<close>

theorem step_large_dt_noop:
  "dt > 0.5 \<Longrightarrow> step dt rnd m = m"
  by (simp add: step_def)

theorem step_large_dt_noop_witness:
  "(0.75::real) > 0.5 \<and> step 0.75 0.3 example_contact = example_contact"
  using step_large_dt_noop [where dt = "0.75" and rnd = "0.3" and m = example_contact]
  by simp







text \<open>
  C5: when the last row of the queue is not empty, one call of \<open>evaporate\<close> (which is
  what storing a new temperature above the evaporation limit runs) removes exactly one
  atom from that row, at the index \<open>floor (rnd * length)\<close> drawn from \<open>Math.random()\<close>,
  marks it evaporated and adds \<open>EVAPORATION_AMPLITUDE_REDUCTION\<close> to the accumulator that
  the next \<open>step\<close> subtracts; the row has exactly one atom less. Each index of the row is
  drawn for the random numbers of an interval of width \<open>1 / length\<close>.
\<close>

theorem evaporate_removes_one_atom:
  assumes "toEvaporate m \<noteq> []" and "last (toEvaporate m) \<noteq> []"
    and "0 \<le> rnd" and "rnd < 1"
  shows "let row = last (toEvaporate m);
             i = nat \<lfloor>rnd * real (length row)\<rfloor>;
             m' = evaporate rnd m
         in i < length row \<and>
            toEvaporate m' = butlast (toEvaporate m) @ [take i row @ drop (Suc i) row] \<and>
            length (last (toEvaporate m')) + 1 = length row \<and>
            isEvaporated m' = (isEvaporated m)(row ! i := True) \<and>
            scheduledEvaporationAmount m' =
              scheduledEvaporationAmount m + EVAPORATION_AMPLITUDE_REDUCTION \<and>
            temperatureProperty m' = temperatureProperty m \<and>
            distanceProperty m' = distanceProperty m \<and>
            atomRowsToEvaporateProperty m' = atomRowsToEvaporateProperty m \<and>
            (\<forall>t. AMPLITUDE_EVAPORATE < t \<and> t \<noteq> temperatureProperty m \<longrightarrow>
               temperatureProperty_set rnd t m = evaporate rnd (m\<lparr>temperatureProperty := t\<rparr>)) \<and>
            (\<forall>dt rnd'. dt \<le> 0.5 \<longrightarrow>
               temperatureProperty (step dt rnd' m') =
                 max AMPLITUDE_MIN
                   ((temperatureProperty m -
                       (scheduledEvaporationAmount m + EVAPORATION_AMPLITUDE_REDUCTION))
                    * (1 - dt * COOLING_RATE))) \<and>
            (\<forall>j<length row. \<forall>r\<ge>0.
               (nat \<lfloor>r * real (length row)\<rfloor> = j) =
               (real j / real (length row) \<le> r \<and> r < (real j + 1) / real (length row)))"
proof -
  define row where "row = last (toEvaporate m)"
  define i where "i = nat \<lfloor>rnd * real (length row)\<rfloor>"
  have n: "0 < length row" using assms(2) by (simp add: row_def)
  have i: "i < length row"
    using random_index_less [OF assms(3,4) n] unfolding i_def by linarith
  have ev: "evaporate rnd m =
     m\<lparr>toEvaporate := butlast (toEvaporate m) @ [take i row @ drop (Suc i) row],
       isEvaporated := (isEvaporated m)(row ! i := True),
       scheduledEvaporationAmount :=
          scheduledEvaporationAmount m + EVAPORATION_AMPLITUDE_REDUCTION\<rparr>"
    using assms evaporate_atom_nonempty [OF assms]
    by (simp add: evaporate_def evaporate_row_keep row_def i_def)
  have len: "length (take i row @ drop (Suc i) row) + 1 = length row"
    using i by simp
  have trig: "\<forall>t. AMPLITUDE_EVAPORATE < t \<and> t \<noteq> temperatureProperty m \<longrightarrow>
     temperatureProperty_set rnd t m = evaporate rnd (m\<lparr>temperatureProperty := t\<rparr>)"
    by (simp add: temperatureProperty_set_def temperature_listener_def)
  have nxt: "\<forall>dt rnd'. dt \<le> 0.5 \<longrightarrow>
     temperatureProperty (step dt rnd' (evaporate rnd m)) =
       max AMPLITUDE_MIN
         ((temperatureProperty m -
            (scheduledEvaporationAmount m + EVAPORATION_AMPLITUDE_REDUCTION))
          * (1 - dt * COOLING_RATE))"
    unfolding ev by (simp add: step_def Let_def)
  have uni: "\<forall>j<length row. \<forall>r\<ge>0.
     (nat \<lfloor>r * real (length row)\<rfloor> = j) =
     (real j / real (length row) \<le> r \<and> r < (real j + 1) / real (length row))"
    using random_index_interval [OF _ n] by blast
  have fields: "toEvaporate (evaporate rnd m) =
        butlast (toEvaporate m) @ [take i row @ drop (Suc i) row]"
    "isEvaporated (evaporate rnd m) = (isEvaporated m)(row ! i := True)"
    "scheduledEvaporationAmount (evaporate rnd m) =
        scheduledEvaporationAmount m + EVAPORATION_AMPLITUDE_REDUCTION"
    "distanceProperty (evaporate rnd m) = distanceProperty m"
    "atomRowsToEvaporateProperty (evaporate rnd m) = atomRowsToEvaporateProperty m"
    unfolding ev by simp_all
  have l: "length (last (toEvaporate (evaporate rnd m))) + 1 = length row"
    unfolding fields(1) using len by simp
  show ?thesis
    unfolding Let_def row_def [symmetric] i_def [symmetric]
    using i fields l trig nxt uni
    by (intro conjI) (simp_all del: AMPLITUDE_EVAPORATE_def AMPLITUDE_MIN_def
        EVAPORATION_AMPLITUDE_REDUCTION_def COOLING_RATE_def)
qed

theorem evaporate_removes_one_atom_witness:
  "toEvaporate example_contact \<noteq> [] \<and> last (toEvaporate example_contact) \<noteq> [] \<and>
   (0::real) \<le> 0.5 \<and> (0.5::real) < 1 \<and>
   toEvaporate (evaporate 0.5 example_contact) = [[0], [1]] \<and>
   isEvaporated (evaporate 0.5 example_contact) 2 \<and>
   scheduledEvaporationAmount (evaporate 0.5 example_contact) = 0.01"
proof -
  have h: "toEvaporate example_contact \<noteq> []" "last (toEvaporate example_contact) \<noteq> []"
    "(0::real) \<le> 0.5" "(0.5::real) < 1"
    by (simp_all add: example_contact_fields)
  have "toEvaporate (evaporate 0.5 example_contact) = [[0], [1]] \<and>
   isEvaporated (evaporate 0.5 example_contact) 2 \<and>
   scheduledEvaporationAmount (evaporate 0.5 example_contact) = 0.01"
    using evaporate_removes_one_atom [OF h]
    by (simp add: Let_def example_contact_fields)
  with h show ?thesis by blast
qed

text \<open>
  C6: when \<open>evaporate\<close> is called and the last row of the queue is empty, that row is
  popped, the distance grows by \<open>DISTANCE_Y\<close> and the published number of rows is the new
  length of the queue; over any sequence of operations without \<open>reset\<close> the number of rows
  of the queue never increases, and in a run of the model neither does the published
  number.
\<close>

theorem empty_row_popped_rows_never_grow:
  "(toEvaporate m \<noteq> [] \<and> last (toEvaporate m) = [] \<longrightarrow>
      length (toEvaporate (evaporate rnd m)) = length (toEvaporate m) - 1 \<and>
      butlast (toEvaporate (evaporate rnd m)) = butlast (butlast (toEvaporate m)) \<and>
      distanceProperty (evaporate rnd m) = distanceProperty m + DISTANCE_Y \<and>
      atomRowsToEvaporateProperty (evaporate rnd m) = length (toEvaporate (evaporate rnd m))) \<and>
   (list_all (\<lambda>op. \<not> is_reset op) ops \<longrightarrow>
      length (toEvaporate (run ops m)) \<le> length (toEvaporate m)) \<and>
   (list_all (\<lambda>op. \<not> is_reset op) ops \<and> m = run ops0 (initial sample) \<longrightarrow>
      atomRowsToEvaporateProperty (run ops m) \<le> atomRowsToEvaporateProperty m)"
proof (intro conjI impI)
  assume a: "toEvaporate m \<noteq> [] \<and> last (toEvaporate m) = []"
  then have r: "evaporate_row m =
    (distanceProperty_set (distanceProperty m + DISTANCE_Y)
       (m\<lparr>toEvaporate := butlast (toEvaporate m)\<rparr>))
     \<lparr>atomRowsToEvaporateProperty := length (butlast (toEvaporate m))\<rparr>"
    by (simp add: evaporate_row_def Let_def)
  show "length (toEvaporate (evaporate rnd m)) = length (toEvaporate m) - 1"
    by (simp add: evaporate_def r)
  show "butlast (toEvaporate (evaporate rnd m)) = butlast (butlast (toEvaporate m))"
    by (simp add: evaporate_def r evaporate_atom_def Let_def split: list.splits)
  show "distanceProperty (evaporate rnd m) = distanceProperty m + DISTANCE_Y"
    by (simp add: evaporate_def r distanceProperty_set_def distance_listener_def)
  show "atomRowsToEvaporateProperty (evaporate rnd m) = length (toEvaporate (evaporate rnd m))"
    by (simp add: evaporate_def r)
next
  assume "list_all (\<lambda>op. \<not> is_reset op) ops"
  then show "length (toEvaporate (run ops m)) \<le> length (toEvaporate m)"
    by (rule run_rows_le)
next
  assume a: "list_all (\<lambda>op. \<not> is_reset op) ops \<and> m = run ops0 (initial sample)"
  then have "model_inv sample m" by (simp add: inv_reachable)
  then have "model_inv sample (run ops m)" by (rule inv_run)
  with \<open>model_inv sample m\<close> run_rows_le [of ops m] a
  show "atomRowsToEvaporateProperty (run ops m) \<le> atomRowsToEvaporateProperty m"
    by (simp add: model_inv_def)
qed

theorem empty_row_popped_rows_never_grow_witness:
  "toEvaporate example_empty_row \<noteq> [] \<and> last (toEvaporate example_empty_row) = [] \<and>
   list_all (\<lambda>op. \<not> is_reset op) [Evaporate 0, Step 0.1 0] \<and>
   example_empty_row = run [Evaporate 0, Evaporate 0] (initial example_sample) \<and>
   length (toEvaporate (evaporate 0 example_empty_row)) = 1 \<and>
   distanceProperty (evaporate 0 example_empty_row) = 45 \<and>
   atomRowsToEvaporateProperty (evaporate 0 example_empty_row) = 1 \<and>
   length (toEvaporate (run [Evaporate 0, Step 0.1 0] example_empty_row)) \<le> 2 \<and>
   atomRowsToEvaporateProperty (run [Evaporate 0, Step 0.1 0] example_empty_row) \<le> 2"
proof -
  have h: "toEvaporate example_empty_row \<noteq> [] \<and> last (toEvaporate example_empty_row) = []"
    by (simp add: example_empty_row_fields)
  have l: "list_all (\<lambda>op. \<not> is_reset op) [Evaporate 0, Step 0.1 0]"
    by simp
  have r: "example_empty_row = run [Evaporate 0, Evaporate 0] (initial example_sample)"
    by (rule example_empty_row_def)
  note t = empty_row_popped_rows_never_grow
    [where m = example_empty_row and rnd = 0 and ops = "[Evaporate 0, Step 0.1 0]"
       and ?ops0.0 = "[Evaporate 0, Evaporate 0]" and sample = example_sample]
  have a: "length (toEvaporate (evaporate 0 example_empty_row)) = 1 \<and>
     distanceProperty (evaporate 0 example_empty_row) = 45 \<and>
     atomRowsToEvaporateProperty (evaporate 0 example_empty_row) = 1"
    using t h by (simp add: example_empty_row_fields)
  have b: "length (toEvaporate (run [Evaporate 0, Step 0.1 0] example_empty_row)) \<le> 2"
  proof -
    from t l have "length (toEvaporate (run [Evaporate 0, Step 0.1 0] example_empty_row))
        \<le> length (toEvaporate example_empty_row)"
      by blast
    also have "length (toEvaporate example_empty_row) = 2"
      by (simp add: example_empty_row_fields)
    finally show ?thesis .
  qed
  have c: "atomRowsToEvaporateProperty (run [Evaporate 0, Step 0.1 0] example_empty_row) \<le> 2"
  proof -
    from t l r have "atomRowsToEvaporateProperty
        (run [Evaporate 0, Step 0.1 0] example_empty_row)
        \<le> atomRowsToEvaporateProperty example_empty_row"
      by blast
    also have "atomRowsToEvaporateProperty example_empty_row = 2"
      by (simp add: example_empty_row_fields)
    finally show ?thesis .
  qed
  from h l r a b c show ?thesis by blast
qed

text \<open>
  C7: in every reachable state, \<open>reset()\<close> restores the temperature \<open>AMPLITUDE_MIN\<close>, the
  position \<open>(0, 0)\<close> and the distance \<open>DISTANCE_INITIAL\<close>, and rebuilds the evaporation
  queue as a copy of the sample of the initial layout: the same number of rows and the
  same number of atoms in each row.
\<close>

theorem reset_restores:
  "temperatureProperty (reset rnd (run ops (initial sample))) = AMPLITUDE_MIN \<and>
   positionProperty (reset rnd (run ops (initial sample))) = \<lparr>vec_x = 0, vec_y = 0\<rparr> \<and>
   distanceProperty (reset rnd (run ops (initial sample))) = DISTANCE_INITIAL \<and>
   toEvaporateSample (reset rnd (run ops (initial sample))) = sample \<and>
   toEvaporate (reset rnd (run ops (initial sample))) = sample \<and>
   length (toEvaporate (reset rnd (run ops (initial sample)))) = length sample \<and>
   map length (toEvaporate (reset rnd (run ops (initial sample)))) = map length sample"
proof -
  have inv: "model_inv sample (run ops (initial sample))" by (rule inv_reachable)
  have "toEvaporateSample (reset rnd (run ops (initial sample))) = sample"
    using reset_props(5) [OF inv, of rnd] by (simp add: model_inv_def)
  then show ?thesis
    using reset_props(1-4) [OF inv, of rnd] by simp
qed

theorem reset_restores_witness:
  "temperatureProperty (reset 0 example_contact) = 1 \<and>
   positionProperty (reset 0 example_contact) = \<lparr>vec_x = 0, vec_y = 0\<rparr> \<and>
   distanceProperty (reset 0 example_contact) = 25 \<and>
   toEvaporate (reset 0 example_contact) = [[0], [1, 2]]"
  using reset_restores [where rnd = 0 and sample = example_sample and
      ops = "[Move \<lparr>vec_x = 0, vec_y = 25\<rparr> 0, Move \<lparr>vec_x = 600, vec_y = 0\<rparr> 0]",
      folded example_contact_def]
  by (simp add: example_sample_def)








end
